theory Spec2Isabelle
  imports Main "HOL-Library.Word"
begin

section \<open>Parameter trees of neural/parameters.h\<close>

text \<open>
  The header declares a polymorphic tree of model parameters: the leaves
  \<open>Vector_Ref\<close> and \<open>Matrix_Ref\<close> are views of a buffer that somebody else owns,
  and \<open>Parameters\<close> is a named, indexed collection of such values.

  Memory is an explicit store of scalars. A pointer is the number of the cell it points
  to, counted in elements, so that \<open>p + n\<close> is pointer arithmetic and two pointers may
  alias. One scalar type \<open>'a\<close> holds the values of both element types (every
  \<open>float\<close> is a value a \<open>double\<close> holds too): the \<open>float\<close> and the \<open>double\<close>
  overloads of every member have the same body. A member that writes scalars takes the
  conversion \<open>cast\<close> from the view's \<open>Underlying\<close> to the destination's element type,
  which \<open>std::copy\<close> applies to every element it assigns: the identity when the two
  types are the same or a \<open>float\<close> is widened, a rounding when a \<open>double\<close> is narrowed.
  The views of one tree have one \<open>Underlying\<close>. \<open>size_t\<close> is the 64-bit unsigned word.
\<close>

type_synonym size_t = "64 word"
type_synonym ptr = nat
type_synonym 'a heap = "ptr \<Rightarrow> 'a"

text \<open>
  The source throws \<open>Exception\<close> with a message; the error names are the spec's
  taxonomy: \<open>"copy_to(): wrong size array"\<close>, \<open>"copy_to(): wrong size matrix"\<close> and
  \<open>"...::compatible_ref(): wrong size"\<close> are \<open>SizeMismatch\<close>.
  A member function takes the store and returns its result (or the error thrown)
  together with the store it leaves behind.
\<close>

datatype error = SizeMismatch | ShapeMismatch | DuplicateIndex | DuplicateName

text \<open>
  \<open>Parameter_Value\<close> is the abstract base; \<open>Sub\<close> is a \<open>Parameters\<close> object seen
  through it. The fields are \<open>name_\<close>, \<open>array_\<close>, \<open>size_\<close> for a vector,
  \<open>name_\<close>, \<open>array_\<close>, \<open>size1_\<close>, \<open>size2_\<close> for a matrix, and \<open>name_\<close>,
  \<open>by_name\<close>, \<open>params\<close> for a collection. The spec makes the children an ordered
  mapping from index to value, so \<open>params\<close> pairs each child with its index and is
  kept in ascending order of the index.
\<close>

datatype Parameter_Value =
    Vector_Ref string ptr size_t
  | Matrix_Ref string ptr size_t size_t
  | Sub Parameters
and Parameters =
    Parameters string "(string \<times> int) list" "(int \<times> Parameter_Value) list"

fun name_P :: "Parameters \<Rightarrow> string" where
  "name_P (Parameters nm bn ps) = nm"

fun name :: "Parameter_Value \<Rightarrow> string" where
  "name (Vector_Ref nm array sz) = nm"
| "name (Matrix_Ref nm array sz1 sz2) = nm"
| "name (Sub p) = name_P p"

fun by_name :: "Parameters \<Rightarrow> (string \<times> int) list" where
  "by_name (Parameters nm bn ps) = bn"

fun params :: "Parameters \<Rightarrow> (int \<times> Parameter_Value) list" where
  "params (Parameters nm bn ps) = ps"

subsection \<open>parameter_count\<close>

text \<open>
  Modelled from the spec: the equations for \<open>Parameters\<close>, whose \<open>parameter_count\<close> the
  header only declares ("recursive sum of children's counts"); the sum is taken in
  \<open>size_t\<close>. The equations for \<open>Vector_Ref\<close> and \<open>Matrix_Ref\<close> are the bodies in the
  header: \<open>size_\<close> and \<open>size1_ * size2_\<close>, a product of two \<open>size_t\<close>.
\<close>

fun parameter_count :: "Parameter_Value \<Rightarrow> size_t"
  and parameter_count_P :: "Parameters \<Rightarrow> size_t"
  and parameter_count_list :: "(int \<times> Parameter_Value) list \<Rightarrow> size_t" where
  "parameter_count (Vector_Ref nm array sz) = sz"
| "parameter_count (Matrix_Ref nm array sz1 sz2) = sz1 * sz2"
| "parameter_count (Sub p) = parameter_count_P p"
| "parameter_count_P (Parameters nm bn ps) = parameter_count_list ps"
| "parameter_count_list [] = 0"
| "parameter_count_list ((index, param) # ps) =
     parameter_count param + parameter_count_list ps"

subsection \<open>copy_to\<close>

text \<open>
  \<open>std::copy(first, first + n, d_first)\<close> assigns the elements one after the other,
  from the first to the last; the assignment \<open>*d_first = *first\<close> converts the element
  to the destination's type.
\<close>

fun std_copy :: "('a \<Rightarrow> 'a) \<Rightarrow> 'a heap \<Rightarrow> ptr \<Rightarrow> nat \<Rightarrow> ptr \<Rightarrow> 'a heap" where
  "std_copy cast h first 0 d_first = h"
| "std_copy cast h first (Suc n) d_first =
     std_copy cast (h(d_first := cast (h first))) (Suc first) n (Suc d_first)"


text \<open>
  The guard of both leaves is \<open>limit - where > size_\<close>. The difference of the two
  pointers is a \<open>ptrdiff_t\<close>; compared with a \<open>size_t\<close> it is converted to \<open>size_t\<close>,
  so a negative difference becomes a large unsigned number.
\<close>

definition wrong_size :: "ptr \<Rightarrow> ptr \<Rightarrow> size_t \<Rightarrow> bool" where
  "wrong_size where limit n \<longleftrightarrow> (word_of_int (int limit - int where) :: size_t) > n"

text \<open>
  Modelled from the spec: the equations for \<open>Parameters\<close>, whose \<open>copy_to\<close> the header
  only declares ("depth-first, index-ascending concatenation of every child's
  \<open>copy_to\<close>"): each child writes at the cursor the child before it returned, below the
  same limit, and an exception of a child ends the traversal with the store as the
  children before it left it. The equations for \<open>Vector_Ref\<close> and \<open>Matrix_Ref\<close> are the
  bodies in the header.
\<close>

fun copy_to_conv ::
    "('a \<Rightarrow> 'a) \<Rightarrow> Parameter_Value \<Rightarrow> ptr \<Rightarrow> ptr \<Rightarrow> 'a heap \<Rightarrow> (error + ptr) \<times> 'a heap"
  and copy_to_conv_P ::
    "('a \<Rightarrow> 'a) \<Rightarrow> Parameters \<Rightarrow> ptr \<Rightarrow> ptr \<Rightarrow> 'a heap \<Rightarrow> (error + ptr) \<times> 'a heap"
  and copy_to_conv_list ::
    "('a \<Rightarrow> 'a) \<Rightarrow> (int \<times> Parameter_Value) list \<Rightarrow> ptr \<Rightarrow> ptr \<Rightarrow> 'a heap
      \<Rightarrow> (error + ptr) \<times> 'a heap" where
  "copy_to_conv cast (Vector_Ref nm array sz) where limit h =
     (if wrong_size where limit sz then (Inl SizeMismatch, h)
      else (Inr (where + unat sz), std_copy cast h array (unat sz) where))"
| "copy_to_conv cast (Matrix_Ref nm array sz1 sz2) where limit h =
     (let n = parameter_count (Matrix_Ref nm array sz1 sz2) in
      if wrong_size where limit n then (Inl SizeMismatch, h)
      else (Inr (where + unat n), std_copy cast h array (unat n) where))"
| "copy_to_conv cast (Sub p) where limit h = copy_to_conv_P cast p where limit h"
| "copy_to_conv_P cast (Parameters nm bn ps) where limit h =
     copy_to_conv_list cast ps where limit h"
| "copy_to_conv_list cast [] where limit h = (Inr where, h)"
| "copy_to_conv_list cast ((index, param) # ps) where limit h =
     (case copy_to_conv cast param where limit h of
        (Inl e, h') \<Rightarrow> (Inl e, h')
      | (Inr current, h') \<Rightarrow> copy_to_conv_list cast ps current limit h')"

text \<open>
  \<open>copy_to\<close> into a destination of the views' own element type: no conversion.
\<close>

abbreviation copy_to ::
    "Parameter_Value \<Rightarrow> ptr \<Rightarrow> ptr \<Rightarrow> 'a heap \<Rightarrow> (error + ptr) \<times> 'a heap" where
  "copy_to \<equiv> copy_to_conv (\<lambda>x. x)"

subsection \<open>compatible_ref and compatible_copy\<close>

text \<open>
  Modelled from the spec: the equations for \<open>Parameters\<close>, whose \<open>compatible_ref\<close> the
  header only declares ("builds a structurally identical tree whose leaves alias
  successive slices of the given flat buffer, partitioned using the same per-leaf sizes
  as flattening; fails with SizeMismatch if the given range's total size differs from
  \<open>parameter_count()\<close>"). The equations for \<open>Vector_Ref\<close> and \<open>Matrix_Ref\<close> are the
  bodies in the header: the guard \<open>first + size_ != last\<close>, then a new view of the same
  name and dimensions on \<open>first\<close>.
\<close>

fun compatible_ref ::
    "Parameter_Value \<Rightarrow> ptr \<Rightarrow> ptr \<Rightarrow> 'a heap \<Rightarrow> (error + Parameter_Value) \<times> 'a heap"
  and compatible_ref_P ::
    "Parameters \<Rightarrow> ptr \<Rightarrow> ptr \<Rightarrow> 'a heap \<Rightarrow> (error + Parameters) \<times> 'a heap"
  and compatible_ref_list ::
    "(int \<times> Parameter_Value) list \<Rightarrow> ptr \<Rightarrow> 'a heap
      \<Rightarrow> (error + (int \<times> Parameter_Value) list) \<times> 'a heap" where
  "compatible_ref (Vector_Ref nm array sz) first last' h =
     (if first + unat sz \<noteq> last' then (Inl SizeMismatch, h)
      else (Inr (Vector_Ref nm first sz), h))"
| "compatible_ref (Matrix_Ref nm array sz1 sz2) first last' h =
     (let n = parameter_count (Matrix_Ref nm array sz1 sz2) in
      if first + unat n \<noteq> last' then (Inl SizeMismatch, h)
      else (Inr (Matrix_Ref nm first sz1 sz2), h))"
| "compatible_ref (Sub p) first last' h =
     (case compatible_ref_P p first last' h of
        (Inl e, h') \<Rightarrow> (Inl e, h')
      | (Inr p', h') \<Rightarrow> (Inr (Sub p'), h'))"
| "compatible_ref_P (Parameters nm bn ps) first last' h =
     (if first + unat (parameter_count_list ps) \<noteq> last' then (Inl SizeMismatch, h)
      else (case compatible_ref_list ps first h of
              (Inl e, h') \<Rightarrow> (Inl e, h')
            | (Inr ps', h') \<Rightarrow> (Inr (Parameters nm bn ps'), h')))"
| "compatible_ref_list [] first h = (Inr [], h)"
| "compatible_ref_list ((index, param) # ps) first h =
     (let next = first + unat (parameter_count param) in
      case compatible_ref param first next h of
        (Inl e, h') \<Rightarrow> (Inl e, h')
      | (Inr param', h') \<Rightarrow>
          (case compatible_ref_list ps next h' of
             (Inl e, h'') \<Rightarrow> (Inl e, h'')
           | (Inr ps', h'') \<Rightarrow> (Inr ((index, param') # ps'), h'')))"

text \<open>
  Modelled from the spec: \<open>Parameter_Value::compatible_copy\<close> and
  \<open>Parameters::compatible_copy\<close>, which the header only declares, under the comment
  "The given range is initialized with the current values via copy_to"; the spec has
  "equivalent to \<open>compatible_ref\<close> followed by populating the new range via \<open>copy_to\<close>".
\<close>

definition compatible_copy_conv ::
    "('a \<Rightarrow> 'a) \<Rightarrow> Parameter_Value \<Rightarrow> ptr \<Rightarrow> ptr \<Rightarrow> 'a heap
      \<Rightarrow> (error + Parameter_Value) \<times> 'a heap" where
  "compatible_copy_conv cast v first last' h =
     (case compatible_ref v first last' h of
        (Inl e, h') \<Rightarrow> (Inl e, h')
      | (Inr v', h') \<Rightarrow>
          (case copy_to_conv cast v first last' h' of
             (Inl e, h'') \<Rightarrow> (Inl e, h'')
           | (Inr current, h'') \<Rightarrow> (Inr v', h'')))"


subsection \<open>What a tree refers to\<close>

text \<open>
  The cells a value refers to, in flattening order (a matrix is row-major in one
  block of \<open>size1_ * size2_\<close> cells), the scalars they hold in a store, and the shape
  metadata of a leaf.
\<close>

fun cells :: "Parameter_Value \<Rightarrow> ptr list"
  and cells_P :: "Parameters \<Rightarrow> ptr list"
  and cells_list :: "(int \<times> Parameter_Value) list \<Rightarrow> ptr list" where
  "cells (Vector_Ref nm array sz) = [array..<array + unat sz]"
| "cells (Matrix_Ref nm array sz1 sz2) = [array..<array + unat (sz1 * sz2)]"
| "cells (Sub p) = cells_P p"
| "cells_P (Parameters nm bn ps) = cells_list ps"
| "cells_list [] = []"
| "cells_list ((index, param) # ps) = cells param @ cells_list ps"

definition flatten :: "Parameter_Value \<Rightarrow> 'a heap \<Rightarrow> 'a list" where
  "flatten v h = map h (cells v)"

fun is_leaf :: "Parameter_Value \<Rightarrow> bool" where
  "is_leaf (Vector_Ref nm array sz) = True"
| "is_leaf (Matrix_Ref nm array sz1 sz2) = True"
| "is_leaf (Sub p) = False"

fun dims :: "Parameter_Value \<Rightarrow> size_t list" where
  "dims (Vector_Ref nm array sz) = [sz]"
| "dims (Matrix_Ref nm array sz1 sz2) = [sz1, sz2]"
| "dims (Sub p) = []"

fun is_matrix :: "Parameter_Value \<Rightarrow> bool" where
  "is_matrix (Matrix_Ref nm array sz1 sz2) = True"
| "is_matrix v = False"

subsection \<open>The collection: add, clear and the bulk arithmetic\<close>

text \<open>
  Modelled from the spec: \<open>Parameters::add(int index, Parameter_Value * param)\<close>,
  which the header only declares ("registers a leaf or subtree at \<open>index\<close> ...; fails
  with DuplicateIndex if \<open>index\<close> already occupied, DuplicateName if another child
  already has that name at a different index"). The name is looked up in the
  \<open>by_name\<close> table; the new child is entered in both tables, the children staying in
  ascending order of the index. The result is the error thrown, if any, and the
  collection as the call leaves it.
\<close>

definition add :: "int \<Rightarrow> Parameter_Value \<Rightarrow> Parameters \<Rightarrow> (error + unit) \<times> Parameters" where
  "add index param p =
     (if map_of (params p) index \<noteq> None then (Inl DuplicateIndex, p)
      else if map_of (by_name p) (name param) \<noteq> None then (Inl DuplicateName, p)
      else (Inr (),
            Parameters (name_P p) ((name param, index) # by_name p)
              (insort_key fst (index, param) (params p))))"

text \<open>
  The invariant of the two tables: \<open>by_name\<close> holds exactly the name and the index of
  every child.
\<close>

definition tables_agree :: "Parameters \<Rightarrow> bool" where
  "tables_agree p \<longleftrightarrow> set (by_name p) = (\<lambda>(i, c). (name c, i)) ` set (params p)"

text \<open>
  Modelled from the spec: \<open>Parameters::clear()\<close>, which the header only declares, under
  the comment "Remove all parameter references from this object. Doesn't actually
  modify any of the parameter values"; the spec has "drops the index/name tables and
  releases owned child objects".
\<close>

definition clear :: "Parameters \<Rightarrow> 'a heap \<Rightarrow> Parameters \<times> 'a heap" where
  "clear p h = (Parameters (name_P p) [] [], h)"







section \<open>Leaf views\<close>

subsection \<open>What std::copy writes\<close>

lemma std_copy_outside:
  "a \<notin> {d_first..<d_first + n} \<Longrightarrow> std_copy cast h first n d_first a = h a"
  by (induction n arbitrary: h first d_first) auto

text \<open>
  Copying forwards is right when the destination does not begin inside the source
  range (the precondition of \<open>std::copy\<close>).
\<close>

lemma std_copy_inside:
  "d_first \<le> first \<or> first + n \<le> d_first \<Longrightarrow> i < n \<Longrightarrow>
   std_copy cast h first n d_first (d_first + i) = cast (h (first + i))"
proof (induction n arbitrary: h first d_first i)
  case 0
  then show ?case by simp
next
  case (Suc n)
  show ?case
  proof (cases i)
    case 0
    then show ?thesis by (simp add: std_copy_outside)
  next
    case (Suc j)
    with Suc.prems have "j < n" by simp
    moreover from Suc.prems have "Suc d_first \<le> Suc first \<or> Suc first + n \<le> Suc d_first"
      by auto
    ultimately have
      "std_copy cast (h(d_first := cast (h first))) (Suc first) n (Suc d_first) (Suc d_first + j)
        = cast ((h(d_first := cast (h first))) (Suc first + j))"
      by (rule Suc.IH[rotated])
    with Suc.prems Suc show ?thesis by auto
  qed
qed

lemma std_copy_map:
  assumes "set [first..<first + n] \<inter> {d_first..<d_first + n} = {}"
  shows "map (std_copy cast h first n d_first) [d_first..<d_first + n]
       = map (\<lambda>a. cast (h a)) [first..<first + n]"
proof (rule nth_equalityI)
  show "length (map (std_copy cast h first n d_first) [d_first..<d_first + n])
      = length (map (\<lambda>a. cast (h a)) [first..<first + n])"
    by simp
next
  fix i assume "i < length (map (std_copy cast h first n d_first) [d_first..<d_first + n])"
  then have i: "i < n" by simp
  have "d_first \<le> first \<or> first + n \<le> d_first"
  proof (rule ccontr)
    assume "\<not> ?thesis"
    then have "d_first \<in> set [first..<first + n] \<inter> {d_first..<d_first + n}"
      using i by auto
    with assms show False by simp
  qed
  then show "map (std_copy cast h first n d_first) [d_first..<d_first + n] ! i
      = map (\<lambda>a. cast (h a)) [first..<first + n] ! i"
    using i by (simp add: std_copy_inside)
qed

lemma std_copy_numeral:
  "std_copy cast h first (numeral k) d_first =
     std_copy cast (h(d_first := cast (h first))) (Suc first) (pred_numeral k) (Suc d_first)"
  by (simp add: numeral_eq_Suc)

subsection \<open>The guard of copy_to\<close>

lemma wrong_size_exact: "int limit - int where = uint n \<Longrightarrow> \<not> wrong_size where limit n"
  by (simp add: wrong_size_def)

lemma exact_limit:
  assumes "int limit - int where = uint n"
  shows "where + unat n = limit"
proof -
  have "uint n = int (unat n)" by (rule uint_nat)
  with assms show ?thesis by linarith
qed

text \<open>
  C10. A leaf of count \<open>n\<close> copied into a range of exactly \<open>n\<close> cells does not throw:
  the guard is the strict \<open>limit - where > n\<close>. The call returns \<open>limit\<close>, changes no
  cell outside the range, and the range then holds the leaf's scalars in order when it
  is apart from the leaf's own cells.
\<close>

theorem copy_to_exact_fit:
  assumes "is_leaf v" and "int limit - int where = uint (parameter_count v)"
  shows "fst (copy_to v where limit h) = Inr limit
       \<and> (set (cells v) \<inter> {where..<limit} = {} \<longrightarrow>
            map (snd (copy_to v where limit h)) [where..<limit] = flatten v h)
       \<and> (\<forall>a. a \<notin> {where..<limit} \<longrightarrow> snd (copy_to v where limit h) a = h a)"
proof (cases v)
  case (Vector_Ref nm array sz)
  with assms have ex: "int limit - int where = uint sz" by simp
  note lim = exact_limit[OF ex]
  show ?thesis
    using wrong_size_exact[OF ex] std_copy_map[of array "unat sz" "where" "\<lambda>x. x" h] lim
    by (auto simp: Vector_Ref flatten_def std_copy_outside)
next
  case (Matrix_Ref nm array sz1 sz2)
  with assms have ex: "int limit - int where = uint (sz1 * sz2)" by simp
  note lim = exact_limit[OF ex]
  show ?thesis
    using wrong_size_exact[OF ex] std_copy_map[of array "unat (sz1 * sz2)" "where" "\<lambda>x. x" h] lim
    by (auto simp: Matrix_Ref flatten_def std_copy_outside)
next
  case (Sub p)
  with assms show ?thesis by simp
qed

theorem copy_to_exact_fit_witness:
  "fst (copy_to (Vector_Ref ''w'' 4 2) 0 2 (int :: nat \<Rightarrow> int)) = Inr 2
   \<and> map (snd (copy_to (Vector_Ref ''w'' 4 2) 0 2 (int :: nat \<Rightarrow> int))) [0..<2] = [4, 5]"
proof -
  have l: "is_leaf (Vector_Ref ''w'' 4 2)" by simp
  have e: "int 2 - int 0 = uint (parameter_count (Vector_Ref ''w'' 4 2))" by simp
  have c: "set (cells (Vector_Ref ''w'' 4 2)) \<inter> {0..<2} = {}" by simp
  have f: "flatten (Vector_Ref ''w'' 4 2) (int :: nat \<Rightarrow> int) = [4, 5]"
    by (simp add: flatten_def upt_rec)
  from copy_to_exact_fit[OF l e, of int] c f show ?thesis by simp
qed

subsection \<open>compatible_ref\<close>

lemma range_length_iff: "first + unat n = last' \<longleftrightarrow> int last' - int first = uint n"
proof -
  have "uint n = int (unat n)" by (rule uint_nat)
  then show ?thesis by linarith
qed

text \<open>
  C3. On a leaf of count \<open>n\<close>, \<open>compatible_ref(first, last)\<close> throws SizeMismatch
  exactly when \<open>last - first\<close> is not \<open>n\<close>. When the length is \<open>n\<close> it returns a
  leaf of the same kind, name and dimensions whose cells are \<open>[first, last)\<close>. In
  either case it leaves the whole store as it was: nothing is copied.
\<close>

theorem compatible_ref_leaf:
  assumes "is_leaf v"
  shows "(fst (compatible_ref v first last' h) = Inl SizeMismatch
            \<longleftrightarrow> int last' - int first \<noteq> uint (parameter_count v))
       \<and> (int last' - int first = uint (parameter_count v) \<longrightarrow>
            (\<exists>v'. fst (compatible_ref v first last' h) = Inr v'
                \<and> is_leaf v' \<and> is_matrix v' = is_matrix v
                \<and> name v' = name v \<and> dims v' = dims v \<and> cells v' = [first..<last']))
       \<and> snd (compatible_ref v first last' h) = h"
proof (cases v)
  case (Vector_Ref nm array sz)
  have "first + unat sz = last' \<longleftrightarrow> int last' - int first = uint sz"
    by (rule range_length_iff)
  then show ?thesis by (auto simp: Vector_Ref)
next
  case (Matrix_Ref nm array sz1 sz2)
  have "first + unat (sz1 * sz2) = last' \<longleftrightarrow> int last' - int first = uint (sz1 * sz2)"
    by (rule range_length_iff)
  then show ?thesis by (auto simp: Matrix_Ref Let_def)
next
  case (Sub p)
  with assms show ?thesis by simp
qed

theorem compatible_ref_leaf_witness:
  "(\<exists>v'. fst (compatible_ref (Matrix_Ref ''m'' 0 2 3) 10 16 (int :: nat \<Rightarrow> int)) = Inr v'
        \<and> is_leaf v' \<and> is_matrix v' = is_matrix (Matrix_Ref ''m'' 0 2 3)
        \<and> name v' = name (Matrix_Ref ''m'' 0 2 3) \<and> dims v' = dims (Matrix_Ref ''m'' 0 2 3)
        \<and> cells v' = [10..<16])
   \<and> fst (compatible_ref (Matrix_Ref ''m'' 0 2 3) 10 15 (int :: nat \<Rightarrow> int)) = Inl SizeMismatch
   \<and> fst (compatible_ref (Matrix_Ref ''m'' 0 2 3) 10 17 (int :: nat \<Rightarrow> int)) = Inl SizeMismatch
   \<and> snd (compatible_ref (Matrix_Ref ''m'' 0 2 3) 10 16 (int :: nat \<Rightarrow> int)) = int"
proof -
  have l: "is_leaf (Matrix_Ref ''m'' 0 2 3)" by simp
  have a: "int 16 - int 10 = uint (parameter_count (Matrix_Ref ''m'' 0 2 3))" by simp
  have b: "int 15 - int 10 \<noteq> uint (parameter_count (Matrix_Ref ''m'' 0 2 3))" by simp
  have c: "int 17 - int 10 \<noteq> uint (parameter_count (Matrix_Ref ''m'' 0 2 3))" by simp
  note fits = compatible_ref_leaf[OF l, of 10 16 int]
  note short = compatible_ref_leaf[OF l, of 10 15 int]
  note long = compatible_ref_leaf[OF l, of 10 17 int]
  from fits a have 1: "\<exists>v'. fst (compatible_ref (Matrix_Ref ''m'' 0 2 3) 10 16 (int :: nat \<Rightarrow> int)) = Inr v'
        \<and> is_leaf v' \<and> is_matrix v' = is_matrix (Matrix_Ref ''m'' 0 2 3)
        \<and> name v' = name (Matrix_Ref ''m'' 0 2 3) \<and> dims v' = dims (Matrix_Ref ''m'' 0 2 3)
        \<and> cells v' = [10..<16]"
    by blast
  from short b have 2: "fst (compatible_ref (Matrix_Ref ''m'' 0 2 3) 10 15 (int :: nat \<Rightarrow> int)) = Inl SizeMismatch"
    by blast
  from long c have 3: "fst (compatible_ref (Matrix_Ref ''m'' 0 2 3) 10 17 (int :: nat \<Rightarrow> int)) = Inl SizeMismatch"
    by blast
  from fits have 4: "snd (compatible_ref (Matrix_Ref ''m'' 0 2 3) 10 16 (int :: nat \<Rightarrow> int)) = int"
    by blast
  from 1 2 3 4 show ?thesis by blast
qed

subsection \<open>parameter_count\<close>

text \<open>
  C7. A vector view of size \<open>n\<close> counts \<open>n\<close> parameters; a matrix view of shape
  \<open>(rows, cols)\<close> counts \<open>rows * cols\<close>, computed in \<open>size_t\<close>, which is the product
  of the two numbers whenever that product fits in 64 bits; a collection counts the sum
  of its children's counts.
\<close>

theorem parameter_count_as_declared:
  "parameter_count (Vector_Ref nm array n) = n
   \<and> parameter_count (Matrix_Ref nm array rows cols) = rows * cols
   \<and> (unat rows * unat cols < 2 ^ 64 \<longrightarrow>
        unat (parameter_count (Matrix_Ref nm array rows cols)) = unat rows * unat cols)
   \<and> parameter_count (Sub (Parameters nm bn ps)) = sum_list (map (\<lambda>c. parameter_count (snd c)) ps)"
proof -
  have "parameter_count_list ps = sum_list (map (\<lambda>c. parameter_count (snd c)) ps)"
    by (induction ps) auto
  moreover have "unat rows * unat cols < 2 ^ 64 \<Longrightarrow> unat (rows * cols) = unat rows * unat cols"
    by (simp add: unat_word_ariths)
  ultimately show ?thesis by simp
qed

theorem parameter_count_as_declared_witness:
  "parameter_count (Matrix_Ref ''p'' 0 2 3) = 6
   \<and> unat (parameter_count (Matrix_Ref ''p'' 0 2 3)) = 2 * 3
   \<and> parameter_count (Sub (Parameters ''p'' [(''v'', 0), (''m'', 1)]
        [(0, Vector_Ref ''v'' 0 4), (1, Matrix_Ref ''m'' 4 2 3)])) = 10"
proof -
  have "unat (2 :: size_t) * unat (3 :: size_t) < 2 ^ 64" by simp
  with parameter_count_as_declared[where rows = 2 and cols = 3 and nm = "''p''"
        and bn = "[(''v'', 0), (''m'', 1)]"
        and ps = "[(0, Vector_Ref ''v'' 0 4), (1, Matrix_Ref ''m'' 4 2 3)]" and array = 0]
  show ?thesis by simp
qed

subsection \<open>What copy_to accepts and what it writes\<close>

lemma ptrdiff_as_size_t:
  assumes "where \<le> limit"
  shows "(word_of_int (int limit - int where) :: size_t) = of_nat (limit - where)"
proof -
  have "int limit - int where = int (limit - where)" using assms by linarith
  then show ?thesis by (simp only: of_int_of_nat_eq)
qed

lemma unat_small: "d < 2 ^ 64 \<Longrightarrow> unat (of_nat d :: size_t) = d"
  by (rule of_nat_inverse[OF refl]) simp

lemma wrong_size_iff:
  assumes "where \<le> limit" and "limit - where < 2 ^ 64"
  shows "wrong_size where limit n \<longleftrightarrow> unat n < limit - where"
  unfolding wrong_size_def ptrdiff_as_size_t[OF assms(1)] word_less_nat_alt unat_small[OF assms(2)]
  by (rule refl)

lemma copy_to_leaf_throws_iff:
  assumes "is_leaf v" and "where \<le> limit" and "limit - where < 2 ^ 64"
  shows "fst (copy_to v where limit h) = Inl SizeMismatch
           \<longleftrightarrow> unat (parameter_count v) < limit - where"
  using assms(1) wrong_size_iff[OF assms(2,3)]
  by (cases v) (simp_all add: Let_def)

lemma copy_to_leaf_heap:
  "is_leaf v \<Longrightarrow> a \<notin> {where..<where + unat (parameter_count v)} \<Longrightarrow>
   snd (copy_to v where limit h) a = h a"
  by (cases v) (auto simp: std_copy_outside Let_def)

lemma copy_to_leaf_throws:
  "is_leaf v \<Longrightarrow> fst (copy_to v where limit h) = Inl e \<Longrightarrow>
   e = SizeMismatch \<and> snd (copy_to v where limit h) = h"
  by (cases v) (auto simp: Let_def split: if_splits)

lemma compatible_ref_leaf_heap: "is_leaf v \<Longrightarrow> snd (compatible_ref v first last' h) = h"
  by (cases v) (auto simp: Let_def)

text \<open>
  C9, as amended. \<open>copy_to\<close> of a leaf changes no cell outside the
  \<open>parameter_count()\<close> cells that begin at \<open>where\<close>, so the buffer the view refers
  to keeps its scalars whenever it is apart from those cells; \<open>compatible_ref\<close>
  changes no cell at all. The \<open>const\<close> pointer of the view does not keep the
  destination from being the same memory.
\<close>

theorem leaf_writes_only_destination:
  assumes "is_leaf v"
  shows "(\<forall>a. a \<notin> {where..<where + unat (parameter_count v)} \<longrightarrow>
            snd (copy_to v where limit h) a = h a)
       \<and> (set (cells v) \<inter> {where..<where + unat (parameter_count v)} = {} \<longrightarrow>
            flatten v (snd (copy_to v where limit h)) = flatten v h)
       \<and> snd (compatible_ref v first last' h) = h"
proof -
  have 1: "\<forall>a. a \<notin> {where..<where + unat (parameter_count v)} \<longrightarrow>
            snd (copy_to v where limit h) a = h a"
    using assms by (simp add: copy_to_leaf_heap)
  have 2: "flatten v (snd (copy_to v where limit h)) = flatten v h"
    if "set (cells v) \<inter> {where..<where + unat (parameter_count v)} = {}"
    unfolding flatten_def
  proof (rule map_cong[OF refl])
    fix a assume "a \<in> set (cells v)"
    with that have "a \<notin> {where..<where + unat (parameter_count v)}" by blast
    with 1 show "snd (copy_to v where limit h) a = h a" by blast
  qed
  from 1 2 compatible_ref_leaf_heap[OF assms] show ?thesis by blast
qed

theorem leaf_writes_only_destination_witness:
  "flatten (Vector_Ref ''w'' 4 2) (snd (copy_to (Vector_Ref ''w'' 4 2) 0 2 (int :: nat \<Rightarrow> int)))
     = flatten (Vector_Ref ''w'' 4 2) int
   \<and> snd (copy_to (Vector_Ref ''w'' 4 2) 0 2 (int :: nat \<Rightarrow> int)) 7 = 7
   \<and> snd (compatible_ref (Vector_Ref ''w'' 4 2) 0 2 (int :: nat \<Rightarrow> int)) = int"
proof -
  have l: "is_leaf (Vector_Ref ''w'' 4 2)" by simp
  have d: "set (cells (Vector_Ref ''w'' 4 2)) \<inter> {0..<0 + unat (parameter_count (Vector_Ref ''w'' 4 2))} = {}"
    by simp
  have o: "(7::nat) \<notin> {0..<0 + unat (parameter_count (Vector_Ref ''w'' 4 2))}" by simp
  note t = leaf_writes_only_destination[OF l, of 0 2 int 0 2]
  from t d have 1: "flatten (Vector_Ref ''w'' 4 2) (snd (copy_to (Vector_Ref ''w'' 4 2) 0 2 (int :: nat \<Rightarrow> int)))
     = flatten (Vector_Ref ''w'' 4 2) int" by blast
  from t o have 2: "snd (copy_to (Vector_Ref ''w'' 4 2) 0 2 (int :: nat \<Rightarrow> int)) 7 = int 7" by blast
  from t have 3: "snd (compatible_ref (Vector_Ref ''w'' 4 2) 0 2 (int :: nat \<Rightarrow> int)) = int" by blast
  from 1 2 3 show ?thesis by simp
qed

text \<open>
  C9 as stated fails where the destination overlaps the view's buffer: a vector on
  the cells 1 and 2, holding \<open>[1, 2]\<close>, copied into the range \<open>[0, 2)\<close> of exactly its
  size, succeeds and then holds \<open>[2, 2]\<close>.
\<close>

theorem copy_to_modifies_own_buffer:
  "fst (copy_to (Vector_Ref ''w'' 1 2) 0 2 (int :: nat \<Rightarrow> int)) = Inr 2
   \<and> cells (Vector_Ref ''w'' 1 2) = [1, 2]
   \<and> flatten (Vector_Ref ''w'' 1 2) (int :: nat \<Rightarrow> int) = [1, 2]
   \<and> flatten (Vector_Ref ''w'' 1 2) (snd (copy_to (Vector_Ref ''w'' 1 2) 0 2 (int :: nat \<Rightarrow> int))) = [2, 2]"
  by (simp add: wrong_size_def flatten_def upt_rec std_copy_numeral)

text \<open>
  C1 asks that a destination of fewer than \<open>parameter_count()\<close> cells be refused with
  SizeMismatch and left as it was. The guard \<open>limit - where > size_\<close> is false for
  such a range (\<open>copy_to_leaf_throws_iff\<close>): a vector of two elements copied into the
  one-cell range \<open>[0, 1)\<close> does not throw, returns the cursor 2 and writes the cells 0 and
  1, the second of them past the limit.
\<close>

theorem copy_to_undersized_not_rejected:
  "fst (copy_to (Vector_Ref ''w'' 4 2) 0 1 (int :: nat \<Rightarrow> int)) = Inr 2
   \<and> map (snd (copy_to (Vector_Ref ''w'' 4 2) 0 1 (int :: nat \<Rightarrow> int))) [0, 1] = [4, 5]"
  by (simp add: wrong_size_def std_copy_numeral)

text \<open>
  C2 asks that every destination of at least \<open>parameter_count()\<close> cells be accepted.
  The same guard throws for every range longer than the count: a vector of two elements
  is refused the three-cell range \<open>[0, 3)\<close>. A collection hands the one limit to each
  child, so two one-element vectors are refused the two-cell range \<open>[0, 2)\<close> by the
  first of them.
\<close>

theorem copy_to_oversized_rejected:
  "copy_to (Vector_Ref ''w'' 4 2) 0 3 h = (Inl SizeMismatch, h)"
  by (simp add: wrong_size_def)

lemma copy_to_two_leaves_rejected:
  "copy_to_conv_P cast (Parameters ''p'' [(''a'', 0), (''b'', 1)]
       [(0, Vector_Ref ''a'' 4 1), (1, Vector_Ref ''b'' 5 1)]) 0 2 h = (Inl SizeMismatch, h)"
  by (simp add: wrong_size_def)

section \<open>The collection\<close>

subsection \<open>add and clear\<close>

lemma map_of_insort_key_new:
  "map_of ps k = None \<Longrightarrow> map_of (insort_key fst (k, v) ps) k = Some v"
  by (induction ps) auto

lemma occupied_iff: "map_of ps k \<noteq> None \<longleftrightarrow> k \<in> fst ` set ps"
  by (simp add: map_of_eq_None_iff)

lemma name_held:
  assumes "tables_agree p" and "(j, c) \<in> set (params p)"
  shows "map_of (by_name p) (name c) \<noteq> None"
proof -
  from assms have "(name c, j) \<in> set (by_name p)"
    unfolding tables_agree_def by force
  then have "name c \<in> fst ` set (by_name p)" by force
  then show ?thesis by (simp add: map_of_eq_None_iff)
qed

lemma name_free:
  assumes "tables_agree p" and "nm \<notin> name ` snd ` set (params p)"
  shows "map_of (by_name p) nm = None"
proof -
  from assms have "nm \<notin> fst ` set (by_name p)"
    unfolding tables_agree_def by force
  then show ?thesis by (simp add: map_of_eq_None_iff)
qed

lemma add_fresh:
  assumes "map_of (params p) index = None" and "map_of (by_name p) (name param) = None"
  shows "add index param p =
    (Inr (), Parameters (name_P p) ((name param, index) # by_name p)
               (insort_key fst (index, param) (params p)))"
  using assms by (simp add: add_def)

text \<open>
  C6. In a collection whose tables agree, \<open>add(index, value)\<close> throws DuplicateIndex
  when a child is registered at \<open>index\<close>, and DuplicateName when \<open>index\<close> is free and a
  child at another index has the value's name; in both cases the collection is left as
  it was. When the index and the name are both free the call succeeds: the value is the
  child at \<open>index\<close>, its name maps to \<open>index\<close>, the other children stay, and the
  tables still agree.
\<close>

theorem add_registers_or_rejects:
  assumes "tables_agree p"
  shows "(index \<in> fst ` set (params p) \<longrightarrow> add index param p = (Inl DuplicateIndex, p))
       \<and> (index \<notin> fst ` set (params p)
            \<and> (\<exists>j c. (j, c) \<in> set (params p) \<and> name c = name param \<and> j \<noteq> index) \<longrightarrow>
            add index param p = (Inl DuplicateName, p))
       \<and> (index \<notin> fst ` set (params p) \<and> name param \<notin> name ` snd ` set (params p) \<longrightarrow>
            fst (add index param p) = Inr ()
            \<and> map_of (params (snd (add index param p))) index = Some param
            \<and> map_of (by_name (snd (add index param p))) (name param) = Some index
            \<and> set (params (snd (add index param p))) = insert (index, param) (set (params p))
            \<and> name_P (snd (add index param p)) = name_P p
            \<and> tables_agree (snd (add index param p)))"
proof (intro conjI impI)
  assume "index \<in> fst ` set (params p)"
  then have "map_of (params p) index \<noteq> None"
    using occupied_iff[of "params p" index] by blast
  then show "add index param p = (Inl DuplicateIndex, p)" by (simp add: add_def)
next
  assume a: "index \<notin> fst ` set (params p)
     \<and> (\<exists>j c. (j, c) \<in> set (params p) \<and> name c = name param \<and> j \<noteq> index)"
  then have free: "map_of (params p) index = None" by (simp add: map_of_eq_None_iff)
  from a obtain j c where "(j, c) \<in> set (params p)" and "name c = name param" by blast
  with name_held[OF assms] have "map_of (by_name p) (name param) \<noteq> None" by metis
  with free show "add index param p = (Inl DuplicateName, p)" by (simp add: add_def)
next
  assume a: "index \<notin> fst ` set (params p) \<and> name param \<notin> name ` snd ` set (params p)"
  then have free: "map_of (params p) index = None" by (simp add: map_of_eq_None_iff)
  from a name_free[OF assms] have nfree: "map_of (by_name p) (name param) = None" by blast
  note r = add_fresh[OF free nfree]
  show "fst (add index param p) = Inr ()" by (simp add: r)
  show "map_of (params (snd (add index param p))) index = Some param"
    by (simp add: r map_of_insort_key_new[OF free])
  show "map_of (by_name (snd (add index param p))) (name param) = Some index"
    by (simp add: r)
  show "set (params (snd (add index param p))) = insert (index, param) (set (params p))"
    by (simp add: r set_insort_key)
  show "name_P (snd (add index param p)) = name_P p" by (simp add: r)
  from assms show "tables_agree (snd (add index param p))"
    by (simp add: r tables_agree_def set_insort_key)
qed

theorem add_registers_or_rejects_witness:
  "add 0 (Vector_Ref ''b'' 8 2) (Parameters ''p'' [(''w'', 0)] [(0, Vector_Ref ''w'' 4 2)])
     = (Inl DuplicateIndex, Parameters ''p'' [(''w'', 0)] [(0, Vector_Ref ''w'' 4 2)])
   \<and> add 1 (Vector_Ref ''w'' 8 2) (Parameters ''p'' [(''w'', 0)] [(0, Vector_Ref ''w'' 4 2)])
     = (Inl DuplicateName, Parameters ''p'' [(''w'', 0)] [(0, Vector_Ref ''w'' 4 2)])
   \<and> fst (add 1 (Vector_Ref ''b'' 8 2) (Parameters ''p'' [(''w'', 0)] [(0, Vector_Ref ''w'' 4 2)]))
     = Inr ()
   \<and> map_of (params (snd (add 1 (Vector_Ref ''b'' 8 2)
        (Parameters ''p'' [(''w'', 0)] [(0, Vector_Ref ''w'' 4 2)])))) 1 = Some (Vector_Ref ''b'' 8 2)"
proof -
  let ?p = "Parameters ''p'' [(''w'', 0)] [(0, Vector_Ref ''w'' 4 2)]"
  have t: "tables_agree ?p" by (simp add: tables_agree_def)
  have i: "0 \<in> fst ` set (params ?p)" by simp
  have n: "1 \<notin> fst ` set (params ?p)
     \<and> (\<exists>j c. (j, c) \<in> set (params ?p) \<and> name c = name (Vector_Ref ''w'' 8 2) \<and> j \<noteq> 1)"
    by simp
  have f: "1 \<notin> fst ` set (params ?p) \<and> name (Vector_Ref ''b'' 8 2) \<notin> name ` snd ` set (params ?p)"
    by simp
  from add_registers_or_rejects[OF t, of 0 "Vector_Ref ''b'' 8 2"] i
  have 1: "add 0 (Vector_Ref ''b'' 8 2) ?p = (Inl DuplicateIndex, ?p)" by blast
  from add_registers_or_rejects[OF t, of 1 "Vector_Ref ''w'' 8 2"] n
  have 2: "add 1 (Vector_Ref ''w'' 8 2) ?p = (Inl DuplicateName, ?p)" by blast
  from add_registers_or_rejects[OF t, of 1 "Vector_Ref ''b'' 8 2"] f
  have 3: "fst (add 1 (Vector_Ref ''b'' 8 2) ?p) = Inr ()
    \<and> map_of (params (snd (add 1 (Vector_Ref ''b'' 8 2) ?p))) 1 = Some (Vector_Ref ''b'' 8 2)"
    by blast
  from 1 2 3 show ?thesis by blast
qed

text \<open>
  C8. After \<open>clear()\<close> the collection counts no parameter and both of its tables are
  empty; the store is the one before the call, so every cell a detached leaf referred to
  holds the scalar it held.
\<close>

theorem clear_detaches:
  "parameter_count_P (fst (clear p h)) = 0
   \<and> params (fst (clear p h)) = [] \<and> by_name (fst (clear p h)) = []
   \<and> snd (clear p h) = h
   \<and> map (snd (clear p h)) (cells_P p) = map h (cells_P p)"
  by (simp add: clear_def)

subsection \<open>update and operator+=\<close>












section \<open>Trees\<close>

subsection \<open>copy_to, compatible_ref and compatible_copy on a tree\<close>

text \<open>
  Whether a leaf's \<open>copy_to\<close> throws, and the cursor it returns, do not depend on the
  conversion.
\<close>

lemma copy_to_conv_leaf_outcome:
  "is_leaf v \<Longrightarrow> fst (copy_to_conv cast v where limit h) = fst (copy_to v where limit h)"
  by (cases v) (simp_all add: Let_def)









text \<open>
  The guard of the leaves reaches \<open>compatible_copy\<close> through \<open>copy_to\<close>: a collection
  of two one-element vectors is refused the range of exactly its two cells.
\<close>

lemma compatible_copy_two_leaves_rejected:
  "fst (compatible_copy_conv cast (Sub (Parameters ''p'' [(''a'', 0), (''b'', 1)]
       [(0, Vector_Ref ''a'' 4 1), (1, Vector_Ref ''b'' 5 1)])) 10 12 h) = Inl SizeMismatch"
  by (simp add: compatible_copy_conv_def wrong_size_def Let_def)

end
